theory Spec2Isabelle
  imports Main "HOL-Library.AList"
begin

section \<open>Data model\<close>

type_synonym bytes = "nat list"

text \<open>
  Modelled from the spec: the package \<open>horizonpkg\<close> that declares \<open>Pkg\<close>,
  \<open>DockerImagePart\<close> and \<open>PartSource\<close> is not among the sources. The records below
  hold exactly the fields that \<open>fetch.go\<close> reads: \<open>source.URL\<close>; \<open>part.ID\<close>,
  \<open>part.Bytes\<close>, \<open>part.Sources\<close>, \<open>part.Signatures\<close>; \<open>pkg.ID\<close>,
  \<open>pkg.Meta.Provides.Images\<close> and \<open>pkg.Parts\<close>. Both Go maps are association lists
  with the part name (respectively the part identity) as key; the order of the list
  stands for the order in which \<open>range\<close> happens to visit the map.
\<close>

record PartSource =
  URL :: string

record DockerImagePart =
  ID :: string
  Bytes :: int
  Sources :: "PartSource list"
  Signatures :: "string list"

record Pkg =
  PkgID :: string
  Images :: "(string \<times> string) list"
  Parts :: "(string \<times> DockerImagePart) list"

section \<open>Errors and outcomes\<close>

text \<open>
  An error of the operating system is classified the way the code looks at it:
  \<open>os.IsExist\<close> holds of \<open>EEXIST\<close> and of nothing else.
\<close>

datatype oserr = EEXIST | EOTHER

fun IsExist :: "oserr \<Rightarrow> bool" where
  "IsExist EEXIST = True"
| "IsExist EOTHER = False"

text \<open>
  Every \<open>error\<close> value the code builds or passes on. A Go \<open>error\<close> is
  \<open>fetch_error option\<close>, with \<open>None\<close> for \<open>nil\<close>. The map of the
  \<open>fetchErrRecorder\<close> is an association list from part name to \<open>error\<close>: a key
  may be bound to \<open>nil\<close>.
\<close>

datatype fetch_error =
    OpenError oserr
  | RemoveError
  | GetError
  | StatusError int
  | DecodeError
  | WriteError
  | MkdirError
  | AbsError
  | PrecheckError DockerImagePart
  | CopyFailed string
  | DownloadIncomplete string
  | VerificationError string
  | FetchErrors "(string \<times> fetch_error option) list"

text \<open>A call either returns or panics (a nil pointer dereference ends the process).\<close>

datatype 'a outcome = Return 'a | Panic

section \<open>The environment: HTTP servers, file system, clock\<close>

text \<open>
  What a GET yields: a request error, or a response with its status code and body. The
  body is the bytes that reach the reader, and a flag that is \<open>True\<close> when the
  stream breaks with an I/O error after these bytes.
\<close>

datatype http_result = RequestError | Response int bytes bool

text \<open>
  The environment answers every call the code makes to the outside. Each answer may depend
  on the moment of the call (the \<open>tick\<close> of the world), so that a call may fail once
  and succeed later. \<open>env_open\<close> is the error that \<open>os.OpenFile\<close> reports, if
  any; \<open>env_stat\<close>, \<open>env_remove\<close>, \<open>env_write\<close> and \<open>env_mkdir\<close>
  say whether \<open>os.Stat\<close>, \<open>os.Remove\<close>, \<open>ioutil.WriteFile\<close> and
  \<open>os.MkdirAll\<close> fail; \<open>env_getwd\<close> is the working directory, if it can be
  read; \<open>env_decode\<close> is \<open>json.Unmarshal\<close> into a \<open>Pkg\<close>.
\<close>

record env =
  env_get :: "nat \<Rightarrow> string \<Rightarrow> http_result"
  env_open :: "nat \<Rightarrow> string \<Rightarrow> oserr option"
  env_stat :: "nat \<Rightarrow> string \<Rightarrow> bool"
  env_remove :: "nat \<Rightarrow> string \<Rightarrow> bool"
  env_write :: "nat \<Rightarrow> string \<Rightarrow> bool"
  env_mkdir :: "nat \<Rightarrow> string \<Rightarrow> bool"
  env_getwd :: "string option"
  env_decode :: "bytes \<Rightarrow> Pkg option"

text \<open>
  The world is what the code changes: the regular files with their contents, the
  directories made, the URLs of the GET requests issued so far (oldest first), and the
  count of calls to the environment.
\<close>

record world =
  files :: "string \<rightharpoonup> bytes"
  dirs :: "string list"
  gets :: "string list"
  tick :: nat

definition tock :: "world \<Rightarrow> world" where
  "tock w = w\<lparr>tick := Suc (tick w)\<rparr>"

text \<open>
  \<open>client.Get(url)\<close>: the request is noted in \<open>gets\<close>, the environment gives the
  result.
\<close>

definition client_Get :: "env \<Rightarrow> world \<Rightarrow> string \<Rightarrow> world \<times> http_result" where
  "client_Get e w u = (tock (w\<lparr>gets := gets w @ [u]\<rparr>), env_get e (tick w) u)"

text \<open>
  \<open>os.OpenFile(p, os.O_RDWR|os.O_CREATE, 0600)\<close>: on an error the file returned is
  \<open>nil\<close>. Otherwise an existing file is opened as it is (there is no \<open>O_TRUNC\<close>
  and no \<open>O_EXCL\<close> among the flags), a missing one is created empty. An open file is
  known by its path; \<open>None\<close> is the \<open>nil\<close> file.
\<close>

definition os_OpenFile :: "env \<Rightarrow> world \<Rightarrow> string \<Rightarrow> world \<times> string option \<times> oserr option" where
  "os_OpenFile e w p =
     (case env_open e (tick w) p of
        Some err \<Rightarrow> (tock w, None, Some err)
      | None \<Rightarrow>
          (case files w p of
             Some c \<Rightarrow> (tock w, Some p, None)
           | None \<Rightarrow> (tock (w\<lparr>files := (files w)(p \<mapsto> [])\<rparr>), Some p, None)))"

text \<open>\<open>os.Stat(p)\<close> and \<open>info.Size()\<close>: the size of the file, or an error.\<close>

definition os_Stat :: "env \<Rightarrow> world \<Rightarrow> string \<Rightarrow> world \<times> int option" where
  "os_Stat e w p =
     (if env_stat e (tick w) p then (tock w, None)
      else (case files w p of
              None \<Rightarrow> (tock w, None)
            | Some c \<Rightarrow> (tock w, Some (int (length c)))))"

text \<open>\<open>os.Remove(p)\<close>: fails on a missing file, or when the environment says so.\<close>

definition os_Remove :: "env \<Rightarrow> world \<Rightarrow> string \<Rightarrow> world \<times> fetch_error option" where
  "os_Remove e w p =
     (if env_remove e (tick w) p \<or> files w p = None then (tock w, Some RemoveError)
      else (tock (w\<lparr>files := (files w)(p := None)\<rparr>), None))"

text \<open>
  \<open>io.Copy(partFile, response.Body)\<close> on a file just opened (its offset is 0): the
  bytes of the body replace the first bytes of the file, what lies beyond them stays.
  The result is the count of bytes written and whether the copy failed. Into the
  \<open>nil\<close> file no byte can be written (\<open>os.ErrInvalid\<close>); a body that ends without
  a byte and without an error never reaches the file, and the copy returns 0 and no error.
\<close>

definition io_Copy :: "world \<Rightarrow> string option \<Rightarrow> bytes \<Rightarrow> bool \<Rightarrow> world \<times> int \<times> bool" where
  "io_Copy w f body broken =
     (case f of
        None \<Rightarrow> (w, 0, body \<noteq> [] \<or> broken)
      | Some p \<Rightarrow>
          (let old = (case files w p of None \<Rightarrow> [] | Some c \<Rightarrow> c)
           in (w\<lparr>files := (files w)(p \<mapsto> body @ drop (length body) old)\<rparr>,
               int (length body), broken)))"

section \<open>fetchPkgPart\<close>

text \<open>
  The closure \<open>tryOpen\<close> ignores its argument and opens \<open>partPath\<close>.
\<close>

definition tryOpen :: "env \<Rightarrow> world \<Rightarrow> string \<Rightarrow> string \<Rightarrow> world \<times> string option \<times> oserr option" where
  "tryOpen e w partPath path = os_OpenFile e w partPath"

text \<open>
  The closure \<open>tryRemove\<close>: \<open>f.Close()\<close> on the \<open>nil\<close> file only returns an error,
  \<open>f.Name()\<close> on it dereferences \<open>nil\<close> and panics.
\<close>

definition tryRemove :: "env \<Rightarrow> world \<Rightarrow> string option \<Rightarrow> world \<times> fetch_error option outcome" where
  "tryRemove e w f =
     (case f of
        None \<Rightarrow> (w, Panic)
      | Some name \<Rightarrow> (case os_Remove e w name of (w', err) \<Rightarrow> (w', Return err)))"

text \<open>The loop over the sources (lines 145 to 176), from the state it is entered in.\<close>

fun download :: "env \<Rightarrow> world \<Rightarrow> string option \<Rightarrow> string \<Rightarrow> int \<Rightarrow> PartSource list
    \<Rightarrow> world \<times> fetch_error option outcome" where
  "download e w partFile partPath expectedBytes [] =
     (w, Return (Some (DownloadIncomplete partPath)))"
| "download e w partFile partPath expectedBytes (source # rest) =
     (case client_Get e w (URL source) of
        (w1, RequestError) \<Rightarrow> download e w1 partFile partPath expectedBytes rest
      | (w1, Response status body broken) \<Rightarrow>
          if status \<noteq> 200 then download e w1 partFile partPath expectedBytes rest
          else
            (case io_Copy w1 partFile body broken of
               (w2, n, err) \<Rightarrow>
                 if err then (w2, Return (Some (CopyFailed partPath)))
                 else if n \<noteq> expectedBytes then
                   (case tryRemove e w2 partFile of
                      (w3, Panic) \<Rightarrow> (w3, Panic)
                    | (w3, Return ignored) \<Rightarrow>
                        (case tryOpen e w3 partPath partPath of
                           (w4, partFile', Some openErr) \<Rightarrow> (w4, Return (Some (OpenError openErr)))
                         | (w4, partFile', None) \<Rightarrow>
                             download e w4 partFile' partPath expectedBytes rest))
                 else (w2, Return None)))"

text \<open>
  Lines 137 to 141: close, open again, give up on an error. Closing changes nothing
  in the world.
\<close>

definition reopen :: "env \<Rightarrow> world \<Rightarrow> string \<Rightarrow> int \<Rightarrow> PartSource list
    \<Rightarrow> world \<times> fetch_error option outcome" where
  "reopen e w partPath expectedBytes sources =
     (case tryOpen e w partPath partPath of
        (w', partFile, Some openErr) \<Rightarrow> (w', Return (Some (OpenError openErr)))
      | (w', partFile, None) \<Rightarrow> download e w' partFile partPath expectedBytes sources)"

definition removeAndReopen :: "env \<Rightarrow> world \<Rightarrow> string option \<Rightarrow> string \<Rightarrow> int \<Rightarrow> PartSource list
    \<Rightarrow> world \<times> fetch_error option outcome" where
  "removeAndReopen e w partFile partPath expectedBytes sources =
     (case tryRemove e w partFile of
        (w', Panic) \<Rightarrow> (w', Panic)
      | (w', Return (Some err)) \<Rightarrow> (w', Return (Some err))
      | (w', Return None) \<Rightarrow> reopen e w' partPath expectedBytes sources)"

definition fetchPkgPart :: "env \<Rightarrow> world \<Rightarrow> string \<Rightarrow> int \<Rightarrow> PartSource list
    \<Rightarrow> world \<times> fetch_error option outcome" where
  "fetchPkgPart e w partPath expectedBytes sources =
     (case tryOpen e w partPath partPath of
        (w1, partFile, openErr) \<Rightarrow>
          if openErr \<noteq> None \<and> IsExist (the openErr) then
            (case os_Stat e w1 partPath of
               (w2, None) \<Rightarrow> removeAndReopen e w2 partFile partPath expectedBytes sources
             | (w2, Some infoSize) \<Rightarrow>
                 if infoSize = expectedBytes then (w2, Return None)
                 else removeAndReopen e w2 partFile partPath expectedBytes sources)
          else download e w1 partFile partPath expectedBytes sources)"

section \<open>verifyPkgPart\<close>

text \<open>
  The body is a log line and one \<open>return\<close>: no file is read, no key looked up, no file
  removed. The world is threaded through for the comparison with what the comments of the
  function announce.
\<close>

definition verifyPkgPart :: "world \<Rightarrow> string \<Rightarrow> string \<Rightarrow> string list \<Rightarrow> world \<times> fetch_error option" where
  "verifyPkgPart w userKeysDir partPath signatures = (w, Some (VerificationError partPath))"

section \<open>Paths\<close>

text \<open>
  \<open>path.Join\<close> and \<open>filepath.Abs\<close> belong to the Go library. \<open>path.Clean\<close>
  works on the elements between slashes: empty elements and \<open>.\<close> are dropped, \<open>..\<close>
  removes the element before it (at the root it is dropped, at the start of a relative
  path it is kept), and the empty result is \<open>.\<close>.
\<close>

fun splitSlash :: "string \<Rightarrow> string list" where
  "splitSlash [] = [[]]"
| "splitSlash (c # cs) =
     (if c = CHR ''/'' then [] # splitSlash cs
      else (case splitSlash cs of [] \<Rightarrow> [[c]] | x # xs \<Rightarrow> (c # x) # xs))"

fun joinSlash :: "string list \<Rightarrow> string" where
  "joinSlash [] = []"
| "joinSlash [x] = x"
| "joinSlash (x # y # ys) = x @ CHR ''/'' # joinSlash (y # ys)"

text \<open>The elements kept so far are held newest first.\<close>

fun cleanElems :: "bool \<Rightarrow> string list \<Rightarrow> string list \<Rightarrow> string list" where
  "cleanElems rooted kept [] = rev kept"
| "cleanElems rooted kept (x # xs) =
     (if x = [] \<or> x = ''.'' then cleanElems rooted kept xs
      else if x = ''..'' then
        (case kept of
           [] \<Rightarrow> if rooted then cleanElems rooted [] xs else cleanElems rooted [''..''] xs
         | k # ks \<Rightarrow>
             if k = ''..'' then cleanElems rooted (''..'' # kept) xs
             else cleanElems rooted ks xs)
      else cleanElems rooted (x # kept) xs)"

definition path_Clean :: "string \<Rightarrow> string" where
  "path_Clean p =
     (let rooted = (take 1 p = ''/'');
          s = (if rooted then ''/'' else []) @ joinSlash (cleanElems rooted [] (splitSlash p))
      in if s = [] then ''.'' else s)"

definition path_Join :: "string \<Rightarrow> string \<Rightarrow> string" where
  "path_Join a b =
     (if a = [] \<and> b = [] then []
      else if a = [] then path_Clean b
      else path_Clean (a @ CHR ''/'' # b))"

text \<open>
  \<open>filepath.Abs\<close>: an absolute path is cleaned; a relative one is joined to the working
  directory, and the call fails with the empty string when that cannot be read.
\<close>

definition filepath_Abs :: "env \<Rightarrow> string \<Rightarrow> string \<times> fetch_error option" where
  "filepath_Abs e p =
     (if take 1 p = ''/'' then (path_Clean p, None)
      else (case env_getwd e of
              None \<Rightarrow> ([], Some AbsError)
            | Some wd \<Rightarrow> (path_Join wd p, None)))"

section \<open>fetchAndVerify\<close>

text \<open>
  The state shared by the goroutines: the world, the map of the \<open>fetchErrRecorder\<close>,
  the slice \<open>fetched\<close>. \<open>begun\<close> holds the names of the tasks that have reported their
  download, \<open>ended\<close> those that have returned; \<open>crashed\<close> is set when a goroutine has
  panicked.
\<close>

record fetch_state =
  fs_world :: world
  Errors :: "(string \<times> fetch_error option) list"
  fetched :: "string list"
  begun :: "string list"
  ended :: "string list"
  crashed :: bool

definition newFetchState :: "world \<Rightarrow> fetch_state" where
  "newFetchState w =
     \<lparr>fs_world = w, Errors = [], fetched = [], begun = [], ended = [], crashed = False\<rparr>"

text \<open>The closure \<open>addResult\<close>, run under the lock.\<close>

definition addResult :: "env \<Rightarrow> fetch_state \<Rightarrow> string \<Rightarrow> fetch_error option \<Rightarrow> string \<Rightarrow> fetch_state" where
  "addResult e st ident err partPath =
     (if err \<noteq> None then st\<lparr>Errors := AList.update ident err (Errors st)\<rparr>
      else if partPath \<noteq> [] then
        (case filepath_Abs e partPath of
           (absPath, err') \<Rightarrow>
             st\<lparr>fetched := (if err' \<noteq> None then fetched st @ [absPath] else fetched st),
                Errors := AList.update ident err' (Errors st)\<rparr>)
      else st)"

text \<open>
  The first half of the goroutine of one part: the path, the download, the report.
\<close>

definition taskFetch :: "env \<Rightarrow> string \<Rightarrow> fetch_state \<Rightarrow> string \<Rightarrow> DockerImagePart \<Rightarrow> fetch_state" where
  "taskFetch e destinationDir st name part =
     (let partPath = path_Join destinationDir name
      in case fetchPkgPart e (fs_world st) partPath (Bytes part) (Sources part) of
           (w', Panic) \<Rightarrow> st\<lparr>fs_world := w', crashed := True\<rparr>
         | (w', Return err) \<Rightarrow>
             (addResult e (st\<lparr>fs_world := w'\<rparr>) name err partPath)\<lparr>begun := name # begun st\<rparr>)"

text \<open>
  The second half: verification, only when the map of errors is empty at this moment.
\<close>

definition taskVerify :: "env \<Rightarrow> string \<Rightarrow> string \<Rightarrow> fetch_state \<Rightarrow> string \<Rightarrow> DockerImagePart \<Rightarrow> fetch_state" where
  "taskVerify e destinationDir userKeysDir st name part =
     (let partPath = path_Join destinationDir name
      in (if length (Errors st) = 0 then
            (case verifyPkgPart (fs_world st) userKeysDir partPath (Signatures part) of
               (w', err) \<Rightarrow> addResult e (st\<lparr>fs_world := w'\<rparr>) name err partPath)
          else st)\<lparr>ended := name # ended st\<rparr>)"

text \<open>
  One step of the scheduler: the named task runs its next half. A task that has
  returned, a name that is no part, and any step after a panic change nothing.
\<close>

definition taskStep :: "env \<Rightarrow> (string \<times> DockerImagePart) list \<Rightarrow> string \<Rightarrow> string
    \<Rightarrow> fetch_state \<Rightarrow> string \<Rightarrow> fetch_state" where
  "taskStep e parts destinationDir userKeysDir st name =
     (if crashed st \<or> name \<in> set (ended st) then st
      else (case map_of parts name of
              None \<Rightarrow> st
            | Some part \<Rightarrow>
                if name \<in> set (begun st) then taskVerify e destinationDir userKeysDir st name part
                else taskFetch e destinationDir st name part))"

text \<open>
  The goroutines run in an order the code does not fix. \<open>sched\<close> is the order the
  scheduler picks: each name in it lets that task run its next half. Whatever is left
  when \<open>sched\<close> is used up runs in the order of the parts, so that every task has
  returned when \<open>group.Wait()\<close> does. The empty \<open>sched\<close> is the run in which all
  downloads come before all verifications; \<open>concat (map (\<lambda>n. [n, n]) names)\<close> is the
  run of one task after the other.
\<close>

definition runTasks :: "env \<Rightarrow> string list \<Rightarrow> (string \<times> DockerImagePart) list \<Rightarrow> string \<Rightarrow> string
    \<Rightarrow> fetch_state \<Rightarrow> fetch_state" where
  "runTasks e sched parts destinationDir userKeysDir st =
     foldl (taskStep e parts destinationDir userKeysDir) st
       (sched @ map fst parts @ map fst parts)"

definition fetchAndVerify :: "env \<Rightarrow> string list \<Rightarrow> world \<Rightarrow> (string \<times> DockerImagePart) list
    \<Rightarrow> string \<Rightarrow> string \<Rightarrow> world \<times> (string list \<times> fetch_error option) outcome" where
  "fetchAndVerify e sched w parts destinationDir userKeysDir =
     (let st = runTasks e sched parts destinationDir userKeysDir (newFetchState w)
      in if crashed st then (fs_world st, Panic)
         else if length (Errors st) > 0 then
           (fs_world st, Return ([], Some (FetchErrors (Errors st))))
         else (fs_world st, Return (fetched st, None)))"

section \<open>The manifest and the top-level call\<close>

text \<open>\<open>writeFile\<close>: \<open>ioutil.WriteFile\<close> replaces the content of the file.\<close>

definition writeFile :: "env \<Rightarrow> world \<Rightarrow> string \<Rightarrow> string \<Rightarrow> bytes \<Rightarrow> world \<times> string \<times> fetch_error option" where
  "writeFile e w destinationDir fileName content =
     (let destFilePath = path_Join destinationDir fileName
      in if env_write e (tick w) destFilePath then (tock w, [], Some WriteError)
         else (tock (w\<lparr>files := (files w)(destFilePath \<mapsto> content)\<rparr>), destFilePath, None))"

text \<open>
  \<open>fetchPkgMeta\<close>: the error of \<open>ioutil.ReadAll\<close> is never looked at, so the bytes read
  before a broken stream are decoded like a whole body.
\<close>

definition fetchPkgMeta :: "env \<Rightarrow> world \<Rightarrow> string \<Rightarrow> string \<Rightarrow> world \<times> (Pkg option \<times> fetch_error option)" where
  "fetchPkgMeta e w pkgURL destinationDir =
     (case client_Get e w pkgURL of
        (w1, RequestError) \<Rightarrow> (w1, None, Some GetError)
      | (w1, Response status rawBody broken) \<Rightarrow>
          if status \<noteq> 200 then (w1, None, Some (StatusError status))
          else
            (case env_decode e rawBody of
               None \<Rightarrow> (w1, None, Some DecodeError)
             | Some pkg \<Rightarrow>
                 (case writeFile e w1 destinationDir (PkgID pkg @ ''.json'') rawBody of
                    (w2, fetchFilePath, Some err) \<Rightarrow> (w2, None, Some err)
                  | (w2, fetchFilePath, None) \<Rightarrow> (w2, Some pkg, None))))"

text \<open>\<open>precheckPkgParts\<close>: the loop over the parts, in the order \<open>range\<close> visits them.\<close>

fun precheckParts :: "(string \<times> string) list \<Rightarrow> (string \<times> DockerImagePart) list \<Rightarrow> fetch_error option" where
  "precheckParts images [] = None"
| "precheckParts images ((name, part) # rest) =
     (case map_of images (ID part) of
        None \<Rightarrow> Some (PrecheckError part)
      | Some repoTag \<Rightarrow> precheckParts images rest)"

definition precheckPkgParts :: "Pkg \<Rightarrow> fetch_error option" where
  "precheckPkgParts pkg = precheckParts (Images pkg) (Parts pkg)"

text \<open>\<open>os.MkdirAll\<close>: a directory that is there already is no error.\<close>

definition os_MkdirAll :: "env \<Rightarrow> world \<Rightarrow> string \<Rightarrow> world \<times> fetch_error option" where
  "os_MkdirAll e w d =
     (if env_mkdir e (tick w) d then (tock w, Some MkdirError)
      else (tock (w\<lparr>dirs := (if d \<in> set (dirs w) then dirs w else d # dirs w)\<rparr>), None))"

definition PkgFetch :: "env \<Rightarrow> string list \<Rightarrow> world \<Rightarrow> string \<Rightarrow> string \<Rightarrow> string
    \<Rightarrow> world \<times> (string list \<times> fetch_error option) outcome" where
  "PkgFetch e sched w pkgURL destinationDir userKeysDir =
     (case fetchPkgMeta e w pkgURL destinationDir of
        (w1, _, Some err) \<Rightarrow> (w1, Return ([], Some err))
      | (w1, None, None) \<Rightarrow> (w1, Panic)
      | (w1, Some pkg, None) \<Rightarrow>
          (case precheckPkgParts pkg of
             Some err \<Rightarrow> (w1, Return ([], Some err))
           | None \<Rightarrow>
               (let pkgDir = path_Join destinationDir (PkgID pkg)
                in case os_MkdirAll e w1 pkgDir of
                     (w2, Some err) \<Rightarrow> (w2, Return ([], Some err))
                   | (w2, None) \<Rightarrow>
                       (case fetchAndVerify e sched w2 (Parts pkg) destinationDir userKeysDir of
                          (w3, Panic) \<Rightarrow> (w3, Panic)
                        | (w3, Return (fetched', Some err)) \<Rightarrow> (w3, Return ([], Some err))
                        | (w3, Return (fetched', None)) \<Rightarrow> (w3, Return (fetched', None))))))"

section \<open>Notions used in the statements\<close>

text \<open>
  How one source answers, seen from the loop of \<open>fetchPkgPart\<close>: \<open>unavailable\<close>
  is a failed request or a status other than 200; \<open>wrongSize\<close> is a body that streams
  to its end with a byte count other than the expected one; \<open>unsuccessful\<close> is either.
\<close>

definition unavailable :: "http_result \<Rightarrow> bool" where
  "unavailable r = (case r of RequestError \<Rightarrow> True | Response status body broken \<Rightarrow> status \<noteq> 200)"

definition wrongSize :: "int \<Rightarrow> http_result \<Rightarrow> bool" where
  "wrongSize n r =
     (case r of RequestError \<Rightarrow> False
      | Response status body broken \<Rightarrow> status = 200 \<and> \<not> broken \<and> int (length body) \<noteq> n)"

definition unsuccessful :: "int \<Rightarrow> http_result \<Rightarrow> bool" where
  "unsuccessful n r = (unavailable r \<or> wrongSize n r)"


section \<open>A concrete environment\<close>

text \<open>
  An environment in which no call to the file system fails, the answer of a server does
  not change with time, and the working directory is the root.
\<close>

definition calmEnv :: "(string \<Rightarrow> http_result) \<Rightarrow> (bytes \<Rightarrow> Pkg option) \<Rightarrow> env" where
  "calmEnv server decode =
     \<lparr>env_get = (\<lambda>t. server), env_open = (\<lambda>t p. None), env_stat = (\<lambda>t p. False),
      env_remove = (\<lambda>t p. False), env_write = (\<lambda>t p. False), env_mkdir = (\<lambda>t p. False),
      env_getwd = Some ''/'', env_decode = decode\<rparr>"

definition emptyWorld :: world where
  "emptyWorld = \<lparr>files = Map.empty, dirs = [], gets = [], tick = 0\<rparr>"

text \<open>
  One mirror: three manifests, the three bytes of part \<open>p\<close>, a body that is too short,
  a body whose stream breaks after two bytes, a body with no byte, a missing document; any
  other request fails.
\<close>

definition mirror :: "string \<Rightarrow> http_result" where
  "mirror u =
     (if u = ''http://m/pkg.json'' then Response 200 [1] False
      else if u = ''http://m/empty.json'' then Response 200 [2] False
      else if u = ''http://m/orphan.json'' then Response 200 [3] False
      else if u = ''http://m/p'' then Response 200 [7, 8, 9] False
      else if u = ''http://m/short'' then Response 200 [7] False
      else if u = ''http://m/cut'' then Response 200 [7, 8] True
      else if u = ''http://m/none'' then Response 200 [] False
      else if u = ''http://m/gone'' then Response 404 [] False
      else RequestError)"

definition examplePart :: DockerImagePart where
  "examplePart = \<lparr>ID = ''p'', Bytes = 3, Sources = [\<lparr>URL = ''http://m/p''\<rparr>], Signatures = []\<rparr>"

text \<open>
  A package with one part and its metadata, one with no parts, one whose part has no
  metadata.
\<close>

definition examplePkg :: Pkg where
  "examplePkg = \<lparr>PkgID = ''pkg'', Images = [(''p'', ''repo:tag'')], Parts = [(''p'', examplePart)]\<rparr>"

definition emptyPkg :: Pkg where
  "emptyPkg = \<lparr>PkgID = ''pkg'', Images = [], Parts = []\<rparr>"

definition orphanPkg :: Pkg where
  "orphanPkg = \<lparr>PkgID = ''pkg'', Images = [], Parts = [(''p'', examplePart)]\<rparr>"

definition decodeExample :: "bytes \<Rightarrow> Pkg option" where
  "decodeExample b =
     (if b = [1] then Some examplePkg else if b = [2] then Some emptyPkg
      else if b = [3] then Some orphanPkg else None)"

definition exampleEnv :: env where
  "exampleEnv = calmEnv mirror decodeExample"

text \<open>The same environment, except that no directory can be made.\<close>

definition noDirEnv :: env where
  "noDirEnv = exampleEnv\<lparr>env_mkdir := (\<lambda>t p. True)\<rparr>"

text \<open>
  The same environment, except that no file can be opened, for a reason other than that
  it exists (the directory is missing, or the path is a directory).
\<close>

definition noOpenEnv :: env where
  "noOpenEnv = exampleEnv\<lparr>env_open := (\<lambda>t p. Some EOTHER)\<rparr>"

section \<open>Properties of the download loop\<close>

lemmas ex_defs = exampleEnv_def calmEnv_def emptyWorld_def mirror_def examplePart_def examplePkg_def
  emptyPkg_def orphanPkg_def decodeExample_def noDirEnv_def noOpenEnv_def

lemmas op_defs = fetchPkgPart_def tryOpen_def os_OpenFile_def tock_def client_Get_def io_Copy_def
  tryRemove_def os_Remove_def os_Stat_def

lemma io_Copy_gets: "io_Copy w f body b = (w', r) \<Longrightarrow> gets w' = gets w"
  by (auto simp: io_Copy_def Let_def split: option.splits)

lemma os_Remove_gets: "os_Remove e w p = (w', r) \<Longrightarrow> gets w' = gets w"
  by (auto simp: os_Remove_def tock_def split: if_splits)

lemma tryRemove_gets: "tryRemove e w f = (w', r) \<Longrightarrow> gets w' = gets w"
  by (auto simp: tryRemove_def split: option.splits prod.splits dest: os_Remove_gets)

lemma tryOpen_gets: "tryOpen e w p q = (w', r) \<Longrightarrow> gets w' = gets w"
  by (auto simp: tryOpen_def os_OpenFile_def tock_def split: option.splits)







lemma download_unavailable:
  "unavailable (env_get e (tick w) (URL s)) \<Longrightarrow>
   download e w f p n (s # ss) = download e (tock (w\<lparr>gets := gets w @ [URL s]\<rparr>)) f p n ss"
  by (auto simp: unavailable_def client_Get_def split: http_result.splits)


lemma download_wrongSize:
  assumes "wrongSize n (env_get e (tick w) (URL s))" and "\<forall>t. env_open e t p = None"
  shows "\<exists>w'. gets w' = gets w @ [URL s]
           \<and> (\<forall>ss. download e w (Some p) p n (s # ss) = download e w' (Some p) p n ss)"
proof -
  obtain body where r: "env_get e (tick w) (URL s) = Response 200 body False"
    and len: "int (length body) \<noteq> n"
    using assms(1) by (auto simp: wrongSize_def split: http_result.splits)
  let ?w1 = "tock (w\<lparr>gets := gets w @ [URL s]\<rparr>)"
  obtain w2 where c: "io_Copy ?w1 (Some p) body False = (w2, int (length body), False)"
    by (simp add: io_Copy_def Let_def)
  obtain w3 ign where rm: "tryRemove e w2 (Some p) = (w3, Return ign)"
    by (cases "os_Remove e w2 p") (simp add: tryRemove_def)
  obtain w4 where op: "tryOpen e w3 p p = (w4, Some p, None)"
    using assms(2) by (cases "files w3 p") (simp_all add: tryOpen_def os_OpenFile_def)
  have "gets w4 = gets w @ [URL s]"
    using tryOpen_gets[OF op] tryRemove_gets[OF rm] io_Copy_gets[OF c] by (simp add: tock_def)
  moreover have "download e w (Some p) p n (s # ss) = download e w4 (Some p) p n ss" for ss
    using r len c rm op by (simp add: client_Get_def)
  ultimately show ?thesis by blast
qed

text \<open>
  Past sources of which none succeeds, the loop is in a state that does not depend on
  the sources still to come.
\<close>

lemma download_unsuccessful:
  assumes "\<forall>x\<in>set pre. \<forall>t. unsuccessful n (env_get e t (URL x))" and "\<forall>t. env_open e t p = None"
  shows "\<exists>w'. gets w' = gets w @ map URL pre
           \<and> (\<forall>rest. download e w (Some p) p n (pre @ rest) = download e w' (Some p) p n rest)"
  using assms(1)
proof (induction pre arbitrary: w)
  case Nil
  show ?case by (intro exI[of _ w]) simp
next
  case (Cons s pre)
  have "\<exists>w1. gets w1 = gets w @ [URL s]
           \<and> (\<forall>ss. download e w (Some p) p n (s # ss) = download e w1 (Some p) p n ss)"
  proof (cases "unavailable (env_get e (tick w) (URL s))")
    case True
    then show ?thesis
      using download_unavailable[of e w s "Some p" p n]
      by (intro exI[of _ "tock (w\<lparr>gets := gets w @ [URL s]\<rparr>)"]) (simp add: tock_def)
  next
    case False
    then have "wrongSize n (env_get e (tick w) (URL s))"
      using Cons.prems by (auto simp: unsuccessful_def)
    then show ?thesis using download_wrongSize[OF _ assms(2)] by blast
  qed
  then obtain w1 where w1: "gets w1 = gets w @ [URL s]"
    "\<And>ss. download e w (Some p) p n (s # ss) = download e w1 (Some p) p n ss" by blast
  from Cons.IH[of w1] Cons.prems obtain w' where w': "gets w' = gets w1 @ map URL pre"
    "\<And>rest. download e w1 (Some p) p n (pre @ rest) = download e w' (Some p) p n rest" by auto
  have "gets w' = gets w @ map URL (s # pre)" using w1(1) w'(1) by simp
  moreover have "download e w (Some p) p n ((s # pre) @ rest) = download e w' (Some p) p n rest" for rest
    using w1(2)[of "pre @ rest"] w'(2)[of rest] by simp
  ultimately show ?case by blast
qed

lemma fetchPkgPart_opened:
  assumes "env_open e (tick w) p = None"
  shows "fetchPkgPart e w p n ss = download e (fst (os_OpenFile e w p)) (Some p) p n ss"
  using assms by (cases "files w p") (simp_all add: fetchPkgPart_def tryOpen_def os_OpenFile_def)

lemma os_OpenFile_gets: "gets (fst (os_OpenFile e w p)) = gets w"
  by (simp add: os_OpenFile_def tock_def split: option.splits)




lemma download_broken:
  assumes "env_get e (tick w) (URL s) = Response 200 body True"
  shows "download e w (Some p) p n (s # post) =
         (tock (w\<lparr>gets := gets w @ [URL s],
                 files := (files w)(p \<mapsto> body @ drop (length body) (case files w p of None \<Rightarrow> [] | Some c \<Rightarrow> c))\<rparr>),
          Return (Some (CopyFailed p)))"
  using assms by (simp add: client_Get_def io_Copy_def Let_def tock_def)

section \<open>The claims about \<open>fetchPkgPart\<close>\<close>




text \<open>
  Claim C10. When the copy of a response body into the part file fails with an I/O
  error, \<open>fetchPkgPart\<close> returns an error at once: no later source is tried, and the file
  with what has been written of the body is left where it is.

  The statement, for a target path that can be opened and sources \<open>pre\<close> of which none
  succeeds: when the stream of the next source \<open>s\<close> breaks after the bytes \<open>partial\<close>,
  the call returns \<open>CopyFailed partPath\<close>, the last request is the one to \<open>s\<close> (none
  goes to \<open>post\<close>), and the target file exists and begins with \<open>partial\<close>.
\<close>

theorem fetchPkgPart_copy_error_returns_at_once:
  assumes opens: "\<forall>t. env_open e t partPath = None"
    and fails: "\<forall>x\<in>set pre. \<forall>t. unsuccessful expectedBytes (env_get e t (URL x))"
    and broken: "\<forall>t. env_get e t (URL s) = Response 200 partial True"
  shows "snd (fetchPkgPart e w partPath expectedBytes (pre @ s # post)) = Return (Some (CopyFailed partPath))
       \<and> gets (fst (fetchPkgPart e w partPath expectedBytes (pre @ s # post))) = gets w @ map URL pre @ [URL s]
       \<and> (\<exists>stale. files (fst (fetchPkgPart e w partPath expectedBytes (pre @ s # post))) partPath = Some (partial @ stale))"
proof -
  let ?w0 = "fst (os_OpenFile e w partPath)"
  have eq: "fetchPkgPart e w partPath expectedBytes ss = download e ?w0 (Some partPath) partPath expectedBytes ss" for ss
    using opens fetchPkgPart_opened by simp
  have g0: "gets ?w0 = gets w" by (rule os_OpenFile_gets)
  from download_unsuccessful[OF fails opens, of ?w0] obtain w1 where
    w1: "download e ?w0 (Some partPath) partPath expectedBytes (pre @ s # post)
         = download e w1 (Some partPath) partPath expectedBytes (s # post)"
      "gets w1 = gets ?w0 @ map URL pre" by blast
  have b1: "env_get e (tick w1) (URL s) = Response 200 partial True" using broken by simp
  show ?thesis
    using eq w1 g0 download_broken[OF b1] by (simp add: tock_def)
qed

text \<open>
  The theorem at a source that is too short, then the source whose stream breaks after
  two bytes, then the good mirror, which is never asked.
\<close>

theorem fetchPkgPart_copy_error_returns_at_once_witness:
  "snd (fetchPkgPart exampleEnv emptyWorld ''/d/p'' 3
          [\<lparr>URL = ''http://m/short''\<rparr>, \<lparr>URL = ''http://m/cut''\<rparr>, \<lparr>URL = ''http://m/p''\<rparr>])
     = Return (Some (CopyFailed ''/d/p''))
   \<and> gets (fst (fetchPkgPart exampleEnv emptyWorld ''/d/p'' 3
          [\<lparr>URL = ''http://m/short''\<rparr>, \<lparr>URL = ''http://m/cut''\<rparr>, \<lparr>URL = ''http://m/p''\<rparr>]))
     = [''http://m/short'', ''http://m/cut'']
   \<and> (\<exists>stale. files (fst (fetchPkgPart exampleEnv emptyWorld ''/d/p'' 3
          [\<lparr>URL = ''http://m/short''\<rparr>, \<lparr>URL = ''http://m/cut''\<rparr>, \<lparr>URL = ''http://m/p''\<rparr>])) ''/d/p''
        = Some ([7, 8] @ stale))"
proof -
  have h1: "\<forall>t. env_open exampleEnv t ''/d/p'' = None"
    by (simp add: ex_defs)
  have h2: "\<forall>x\<in>set [\<lparr>URL = ''http://m/short''\<rparr>]. \<forall>t. unsuccessful 3 (env_get exampleEnv t (URL x))"
    by (simp add: ex_defs unsuccessful_def wrongSize_def)
  have h3: "\<forall>t. env_get exampleEnv t (URL \<lparr>URL = ''http://m/cut''\<rparr>) = Response 200 [7, 8] True"
    by (simp add: ex_defs)
  show ?thesis
    using fetchPkgPart_copy_error_returns_at_once[OF h1 h2 h3,
        where w = emptyWorld and post = "[\<lparr>URL = ''http://m/p''\<rparr>]"]
    by (simp add: emptyWorld_def)
qed

text \<open>
  Claim C2. A part whose target file is on disk with exactly the expected size is not
  downloaded again: \<open>fetchPkgPart\<close> returns \<open>nil\<close> and issues no GET.

  The code compares the size only after \<open>os.OpenFile\<close> has reported an error of the kind
  \<open>os.IsExist\<close>, and with the flags \<open>O_RDWR|O_CREATE\<close> an existing file is opened
  without error. At a target file of the three bytes \<open>1, 2, 3\<close>, with three bytes
  expected, the call goes on to the loop, asks the mirror and writes its body over
  the file.
\<close>

theorem fetchPkgPart_existing_file_is_downloaded_again:
  "fetchPkgPart exampleEnv (emptyWorld\<lparr>files := [''/d/p'' \<mapsto> [1, 2, 3]]\<rparr>) ''/d/p'' 3
     [\<lparr>URL = ''http://m/p''\<rparr>]
   = (\<lparr>files = [''/d/p'' \<mapsto> [7, 8, 9]], dirs = [], gets = [''http://m/p''], tick = 2\<rparr>, Return None)"
  by (simp add: ex_defs op_defs)

text \<open>
  Claim C6. After a call of \<open>fetchPkgPart\<close> that returns \<open>nil\<close> the target file holds
  exactly the expected count of bytes, taken from one of the sources, also when a file
  of another size was at the target path before.

  For the reason given at claim C2 the branch that deletes a file of another size is not
  taken; the file is opened as it is and the body is written over its first bytes. At a
  target file of five bytes, with three expected, the call returns \<open>nil\<close> and the file
  has five bytes: the three of the mirror and the last two of the old file.
\<close>

theorem fetchPkgPart_keeps_tail_of_longer_file:
  "fetchPkgPart exampleEnv (emptyWorld\<lparr>files := [''/d/p'' \<mapsto> [1, 2, 3, 4, 5]]\<rparr>) ''/d/p'' 3
     [\<lparr>URL = ''http://m/p''\<rparr>]
   = (\<lparr>files = [''/d/p'' \<mapsto> [7, 8, 9, 4, 5]], dirs = [], gets = [''http://m/p''], tick = 2\<rparr>,
      Return None)"
  by (simp add: ex_defs op_defs)

section \<open>The claims about \<open>verifyPkgPart\<close>\<close>

text \<open>
  Claim C4. When verification fails, \<open>verifyPkgPart\<close> deletes the file of the part and
  then reports a verification error that names the part; when it succeeds the file stays.

  The comment in the function announces the deletion, its body has none: at a part file
  of three bytes and a signature, the call returns the error and the file is as before.
\<close>

theorem verifyPkgPart_keeps_rejected_file:
  "snd (verifyPkgPart (emptyWorld\<lparr>files := [''/d/p'' \<mapsto> [7, 8, 9]]\<rparr>) ''/k'' ''/d/p'' [''sig''])
     = Some (VerificationError ''/d/p'')
   \<and> files (fst (verifyPkgPart (emptyWorld\<lparr>files := [''/d/p'' \<mapsto> [7, 8, 9]]\<rparr>) ''/k'' ''/d/p'' [''sig'']))
        ''/d/p'' = Some [7, 8, 9]"
  by (simp add: verifyPkgPart_def emptyWorld_def)

text \<open>
  Claim C5. A part with an empty list of signatures passes verification: all declared
  signatures must verify, and there is none.

  The function returns its error whatever the signatures are, so also at the empty list.
\<close>

theorem verifyPkgPart_rejects_empty_signatures:
  "snd (verifyPkgPart (emptyWorld\<lparr>files := [''/d/p'' \<mapsto> [7, 8, 9]]\<rparr>) ''/k'' ''/d/p'' [])
     = Some (VerificationError ''/d/p'')"
  by (simp add: verifyPkgPart_def)

section \<open>Properties of the orchestrator\<close>

lemma update_not_Nil: "AList.update k v al \<noteq> []"
  by (cases al) auto

lemma addResult_keeps:
  "crashed (addResult e st ident err p) = crashed st"
  "begun (addResult e st ident err p) = begun st"
  "ended (addResult e st ident err p) = ended st"
  by (auto simp: addResult_def split: prod.splits)

lemma addResult_Errors_stay: "Errors st \<noteq> [] \<Longrightarrow> Errors (addResult e st ident err p) \<noteq> []"
  by (auto simp: addResult_def update_not_Nil split: prod.splits)

lemma addResult_Errors_error: "err \<noteq> None \<Longrightarrow> Errors (addResult e st ident err p) \<noteq> []"
  by (auto simp: addResult_def update_not_Nil)

text \<open>Once a task has returned, the map of errors is not empty (or the process is gone).\<close>

lemma taskStep_ended_Errors:
  assumes "crashed st \<or> ended st = [] \<or> Errors st \<noteq> []"
  shows "crashed (taskStep e parts d k st name) \<or> ended (taskStep e parts d k st name) = []
         \<or> Errors (taskStep e parts d k st name) \<noteq> []"
proof (cases "crashed st \<or> name \<in> set (ended st) \<or> map_of parts name = None")
  case True
  then show ?thesis using assms by (auto simp: taskStep_def)
next
  case False
  then obtain part where part: "map_of parts name = Some part" by auto
  show ?thesis
  proof (cases "name \<in> set (begun st)")
    case True
    then have "taskStep e parts d k st name = taskVerify e d k st name part"
      using False part by (simp add: taskStep_def)
    moreover have "Errors (taskVerify e d k st name part) \<noteq> []"
      by (cases "Errors st = []")
        (simp_all add: taskVerify_def verifyPkgPart_def Let_def addResult_Errors_error)
    ultimately show ?thesis by simp
  next
    case nb: False
    then have eq: "taskStep e parts d k st name = taskFetch e d st name part"
      using False part by (simp add: taskStep_def)
    obtain w' r where f: "fetchPkgPart e (fs_world st) (path_Join d name) (Bytes part) (Sources part) = (w', r)"
      by (cases "fetchPkgPart e (fs_world st) (path_Join d name) (Bytes part) (Sources part)")
    show ?thesis
    proof (cases r)
      case Panic
      then show ?thesis using eq f by (simp add: taskFetch_def Let_def)
    next
      case (Return err)
      have "ended (taskFetch e d st name part) = ended st"
        using f Return by (simp add: taskFetch_def Let_def addResult_keeps)
      moreover have "Errors st \<noteq> [] \<Longrightarrow> Errors (taskFetch e d st name part) \<noteq> []"
        using f Return by (simp add: taskFetch_def Let_def addResult_Errors_stay)
      ultimately show ?thesis using assms False eq by auto
    qed
  qed
qed

lemma taskStep_crashed: "crashed st \<Longrightarrow> crashed (taskStep e parts d k st name)"
  by (simp add: taskStep_def)

lemma taskStep_ended: "x \<in> set (ended st) \<Longrightarrow> x \<in> set (ended (taskStep e parts d k st name))"
  by (auto simp: taskStep_def taskVerify_def taskFetch_def Let_def addResult_keeps
      split: option.splits prod.splits outcome.splits)

lemma taskStep_begun: "x \<in> set (begun st) \<Longrightarrow> x \<in> set (begun (taskStep e parts d k st name))"
  by (auto simp: taskStep_def taskVerify_def taskFetch_def Let_def addResult_keeps verifyPkgPart_def
      split: option.splits prod.splits outcome.splits)

lemma taskStep_own:
  assumes "map_of parts name = Some part"
  shows "crashed (taskStep e parts d k st name) \<or> name \<in> set (ended (taskStep e parts d k st name))
         \<or> (name \<notin> set (begun st) \<and> name \<in> set (begun (taskStep e parts d k st name)))"
  using assms
  by (auto simp: taskStep_def taskVerify_def taskFetch_def Let_def addResult_keeps verifyPkgPart_def
      split: option.splits prod.splits outcome.splits)

lemma foldl_taskStep_inv:
  "crashed st \<or> ended st = [] \<or> Errors st \<noteq> [] \<Longrightarrow>
   crashed (foldl (taskStep e parts d k) st xs) \<or> ended (foldl (taskStep e parts d k) st xs) = []
   \<or> Errors (foldl (taskStep e parts d k) st xs) \<noteq> []"
  by (induction xs arbitrary: st) (simp_all add: taskStep_ended_Errors)

lemma foldl_taskStep_done:
  "crashed st \<or> name \<in> set (ended st) \<Longrightarrow>
   crashed (foldl (taskStep e parts d k) st xs) \<or> name \<in> set (ended (foldl (taskStep e parts d k) st xs))"
proof (induction xs arbitrary: st)
  case Nil
  then show ?case by simp
next
  case (Cons x xs)
  have "crashed (taskStep e parts d k st x) \<or> name \<in> set (ended (taskStep e parts d k st x))"
    using Cons.prems taskStep_crashed taskStep_ended by blast
  then show ?case using Cons.IH by simp
qed

lemma foldl_taskStep_second:
  assumes "map_of parts name = Some part" and "name \<in> set xs"
    and "crashed st \<or> name \<in> set (ended st) \<or> name \<in> set (begun st)"
  shows "crashed (foldl (taskStep e parts d k) st xs) \<or> name \<in> set (ended (foldl (taskStep e parts d k) st xs))"
  using assms(2,3)
proof (induction xs arbitrary: st)
  case Nil
  then show ?case by simp
next
  case (Cons x xs)
  let ?st = "taskStep e parts d k st x"
  show ?case
  proof (cases "x = name")
    case True
    have "crashed ?st \<or> name \<in> set (ended ?st)"
      using taskStep_own[OF assms(1), of e d k st] Cons.prems(2) True taskStep_crashed taskStep_ended
      by blast
    then show ?thesis using foldl_taskStep_done by simp
  next
    case False
    then have "name \<in> set xs" using Cons.prems(1) by simp
    moreover have "crashed ?st \<or> name \<in> set (ended ?st) \<or> name \<in> set (begun ?st)"
      using Cons.prems(2) taskStep_crashed taskStep_ended taskStep_begun by blast
    ultimately show ?thesis using Cons.IH by simp
  qed
qed

lemma foldl_taskStep_first:
  assumes "map_of parts name = Some part" and "name \<in> set xs"
  shows "crashed (foldl (taskStep e parts d k) st xs) \<or> name \<in> set (ended (foldl (taskStep e parts d k) st xs))
         \<or> name \<in> set (begun (foldl (taskStep e parts d k) st xs))"
  using assms(2)
proof (induction xs arbitrary: st)
  case Nil
  then show ?case by simp
next
  case (Cons x xs)
  let ?st = "taskStep e parts d k st x"
  show ?case
  proof (cases "name \<in> set xs")
    case True
    then show ?thesis using Cons.IH by simp
  next
    case False
    then have x: "x = name" using Cons.prems by simp
    have "crashed ?st \<or> name \<in> set (ended ?st) \<or> name \<in> set (begun ?st)"
      using taskStep_own[OF assms(1), of e d k st] x by blast
    moreover have "crashed s \<or> name \<in> set (ended s) \<or> name \<in> set (begun s) \<Longrightarrow>
        crashed (foldl (taskStep e parts d k) s ys) \<or> name \<in> set (ended (foldl (taskStep e parts d k) s ys))
         \<or> name \<in> set (begun (foldl (taskStep e parts d k) s ys))" for s ys
    proof (induction ys arbitrary: s)
      case Nil
      then show ?case by simp
    next
      case (Cons y ys)
      have "crashed (taskStep e parts d k s y) \<or> name \<in> set (ended (taskStep e parts d k s y))
            \<or> name \<in> set (begun (taskStep e parts d k s y))"
        using Cons.prems taskStep_crashed taskStep_ended taskStep_begun by blast
      then show ?case using Cons.IH by simp
    qed
    ultimately show ?thesis by simp
  qed
qed

lemma fetchAndVerify_parts_never_succeed:
  assumes "parts \<noteq> []"
  shows "snd (fetchAndVerify e sched w parts d k) \<noteq> Return (paths, None)"
proof -
  obtain name part rest where parts: "parts = (name, part) # rest"
    using assms by (cases parts) auto
  then have m: "map_of parts name = Some part" by simp
  have n: "name \<in> set (map fst parts)" using parts by simp
  let ?step = "taskStep e parts d k"
  let ?st1 = "foldl ?step (newFetchState w) (sched @ map fst parts)"
  let ?st2 = "foldl ?step ?st1 (map fst parts)"
  have run: "runTasks e sched parts d k (newFetchState w) = ?st2"
    by (simp add: runTasks_def)
  have "crashed ?st1 \<or> name \<in> set (ended ?st1) \<or> name \<in> set (begun ?st1)"
    using foldl_taskStep_first[OF m, of "sched @ map fst parts"] n by simp
  then have fin: "crashed ?st2 \<or> name \<in> set (ended ?st2)"
    using foldl_taskStep_second[OF m n] by blast
  have "crashed (newFetchState w) \<or> ended (newFetchState w) = [] \<or> Errors (newFetchState w) \<noteq> []"
    by (simp add: newFetchState_def)
  then have "crashed ?st2 \<or> ended ?st2 = [] \<or> Errors ?st2 \<noteq> []"
    using foldl_taskStep_inv[of "newFetchState w" e parts d k "sched @ map fst parts @ map fst parts"]
    by simp
  with fin have "crashed ?st2 \<or> Errors ?st2 \<noteq> []" by auto
  then show ?thesis
    unfolding fetchAndVerify_def run by (auto simp: Let_def)
qed

lemma runTasks_no_parts: "runTasks e sched [] d k st = st"
proof -
  have "foldl (taskStep e [] d k) st xs = st" for xs
    by (induction xs) (simp_all add: taskStep_def)
  then show ?thesis by (simp add: runTasks_def)
qed

lemma precheckParts_None_iff:
  "precheckParts images parts = None \<longleftrightarrow> (\<forall>part\<in>snd ` set parts. map_of images (ID part) \<noteq> None)"
  by (induction images parts rule: precheckParts.induct) (auto split: option.splits)

lemma precheckParts_Some:
  "precheckParts images parts = Some err \<Longrightarrow>
   \<exists>part\<in>snd ` set parts. err = PrecheckError part \<and> map_of images (ID part) = None"
  by (induction images parts rule: precheckParts.induct) (auto split: option.splits)

lemma fetchPkgMeta_gets: "fetchPkgMeta e w url d = (w1, r) \<Longrightarrow> gets w1 = gets w @ [url]"
  by (auto simp: fetchPkgMeta_def client_Get_def writeFile_def tock_def Let_def
      split: http_result.splits option.splits if_splits prod.splits)

section \<open>The claims about \<open>fetchAndVerify\<close> and \<open>PkgFetch\<close>\<close>

text \<open>
  Claim C1. When every part downloads and verifies, \<open>fetchAndVerify\<close> returns a
  \<open>nil\<close> error with the absolute path of each part; and when the map of errors is not
  empty after all tasks have returned, it returns an error that carries the whole map.

  The second half is what lines 245 to 247 do. The first half fails in \<open>addResult\<close>:
  on a successful download it appends the path only when \<open>filepath.Abs\<close> has failed, and
  it stores the (\<open>nil\<close>) error of \<open>filepath.Abs\<close> under the name of the part, so that
  the map has an entry. For the package of the one part \<open>p\<close>, whose mirror delivers the
  three expected bytes, the file is written and the call returns the error that carries
  the map from \<open>p\<close> to \<open>nil\<close>, with no path. By
  \<open>fetchAndVerify_parts_never_succeed\<close> above, no package with a part, no environment
  and no schedule ends in a \<open>nil\<close> error.
\<close>

theorem fetchAndVerify_reports_error_for_fetched_part:
  "snd (fetchAndVerify exampleEnv [] emptyWorld [(''p'', examplePart)] ''/d'' ''/k'')
     = Return ([], Some (FetchErrors [(''p'', None)]))
   \<and> files (fst (fetchAndVerify exampleEnv [] emptyWorld [(''p'', examplePart)] ''/d'' ''/k'')) ''/d/p''
     = Some [7, 8, 9]"
  by code_simp

text \<open>
  Claim C3. The file of a part is created at
  \<open>destinationDir/packageSubdir/partName\<close>, inside the directory that \<open>PkgFetch\<close>
  makes for the package, and holds exactly the expected bytes after a success.

  \<open>PkgFetch\<close> makes \<open>pkgDir\<close> and then hands \<open>destinationDir\<close> to
  \<open>fetchAndVerify\<close>, which joins it to the name of the part. For the destination
  \<open>/d\<close>, the package \<open>pkg\<close> and the part \<open>p\<close>: the directory \<open>/d/pkg\<close> is made,
  no file \<open>/d/pkg/p\<close> exists after the call, and the three bytes are in \<open>/d/p\<close>.
\<close>

theorem PkgFetch_part_file_outside_package_directory:
  "path_Join (path_Join ''/d'' (PkgID examplePkg)) ''p'' = ''/d/pkg/p''
   \<and> dirs (fst (PkgFetch exampleEnv [] emptyWorld ''http://m/pkg.json'' ''/d'' ''/k'')) = [''/d/pkg'']
   \<and> files (fst (PkgFetch exampleEnv [] emptyWorld ''http://m/pkg.json'' ''/d'' ''/k'')) ''/d/pkg/p'' = None
   \<and> files (fst (PkgFetch exampleEnv [] emptyWorld ''http://m/pkg.json'' ''/d'' ''/k'')) ''/d/p''
       = Some [7, 8, 9]"
  by code_simp

text \<open>
  Claim C8. \<open>precheckPkgParts\<close> returns an error exactly when some part of the package
  has no entry under its identity in \<open>Meta.Provides.Images\<close>; the error names such a
  part; and in \<open>PkgFetch\<close> the check is over before any download of a part starts.

  The last point as a statement: when the manifest has been fetched and the check
  fails, \<open>PkgFetch\<close> returns the error of the check in the world that the fetch of the
  manifest has left, in which the one request issued is that for the manifest.
\<close>

theorem precheckPkgParts_missing_metadata:
  "(precheckPkgParts pkg \<noteq> None \<longleftrightarrow>
      (\<exists>part\<in>snd ` set (Parts pkg). map_of (Images pkg) (ID part) = None))
   \<and> (\<forall>err. precheckPkgParts pkg = Some err \<longrightarrow>
        (\<exists>part\<in>snd ` set (Parts pkg). err = PrecheckError part \<and> map_of (Images pkg) (ID part) = None))
   \<and> (\<forall>w1 err. fetchPkgMeta e w pkgURL destinationDir = (w1, Some pkg, None)
          \<and> precheckPkgParts pkg = Some err \<longrightarrow>
        PkgFetch e sched w pkgURL destinationDir userKeysDir = (w1, Return ([], Some err))
        \<and> gets w1 = gets w @ [pkgURL])"
proof -
  have A: "precheckPkgParts pkg \<noteq> None \<longleftrightarrow>
      (\<exists>part\<in>snd ` set (Parts pkg). map_of (Images pkg) (ID part) = None)"
    using precheckParts_None_iff[of "Images pkg" "Parts pkg"] by (auto simp: precheckPkgParts_def)
  have B: "\<forall>err. precheckPkgParts pkg = Some err \<longrightarrow>
        (\<exists>part\<in>snd ` set (Parts pkg). err = PrecheckError part \<and> map_of (Images pkg) (ID part) = None)"
    using precheckParts_Some[of "Images pkg" "Parts pkg"] by (simp add: precheckPkgParts_def)
  have C: "PkgFetch e sched w pkgURL destinationDir userKeysDir = (w1, Return ([], Some err))
        \<and> gets w1 = gets w @ [pkgURL]"
    if "fetchPkgMeta e w pkgURL destinationDir = (w1, Some pkg, None)"
      and "precheckPkgParts pkg = Some err" for w1 err
    using that fetchPkgMeta_gets[OF that(1)] by (simp add: PkgFetch_def)
  show ?thesis using A B C by blast
qed

text \<open>
  The theorem at the package whose part \<open>p\<close> has no metadata.
\<close>

theorem precheckPkgParts_missing_metadata_witness:
  "precheckPkgParts orphanPkg = Some (PrecheckError examplePart)
   \<and> snd (PkgFetch exampleEnv [] emptyWorld ''http://m/orphan.json'' ''/d'' ''/k'')
       = Return ([], Some (PrecheckError examplePart))
   \<and> gets (fst (PkgFetch exampleEnv [] emptyWorld ''http://m/orphan.json'' ''/d'' ''/k''))
       = [''http://m/orphan.json'']"
proof -
  have pc: "precheckPkgParts orphanPkg = Some (PrecheckError examplePart)"
    by (simp add: precheckPkgParts_def orphanPkg_def)
  obtain w1 where m: "fetchPkgMeta exampleEnv emptyWorld ''http://m/orphan.json'' ''/d'' = (w1, Some orphanPkg, None)"
    by (simp add: fetchPkgMeta_def client_Get_def writeFile_def Let_def exampleEnv_def calmEnv_def
        mirror_def decodeExample_def emptyWorld_def)
  show ?thesis
    using precheckPkgParts_missing_metadata[of orphanPkg exampleEnv emptyWorld "''http://m/orphan.json''" "''/d''" "[]" "''/k''"]
      pc m by (simp add: emptyWorld_def)
qed

text \<open>
  Claim C9. For a package with no parts, \<open>fetchAndVerify\<close> returns a \<open>nil\<close> error and
  the empty list, and so does \<open>PkgFetch\<close> after the manifest has been fetched and the
  check has passed.

  Between the check and \<open>fetchAndVerify\<close>, \<open>PkgFetch\<close> makes the directory of the
  package and returns the error of \<open>os.MkdirAll\<close> if there is one. In the environment
  where no directory can be made, the manifest of the package with no parts is fetched,
  the check passes, and \<open>PkgFetch\<close> returns that error.
\<close>

theorem PkgFetch_no_parts_mkdir_counterexample:
  "snd (fetchPkgMeta noDirEnv emptyWorld ''http://m/empty.json'' ''/d'') = (Some emptyPkg, None)
   \<and> precheckPkgParts emptyPkg = None
   \<and> Parts emptyPkg = []
   \<and> snd (PkgFetch noDirEnv [] emptyWorld ''http://m/empty.json'' ''/d'' ''/k'')
       = Return ([], Some MkdirError)"
  by code_simp

text \<open>
  Claim C9, amended. For a package with no parts, \<open>fetchAndVerify\<close> returns a \<open>nil\<close>
  error and the empty list, in the world it was called in, whatever the schedule; and so
  does \<open>PkgFetch\<close> after the manifest has been fetched, the check has passed and the
  directory of the package has been made. (The check passes on every package with no
  parts.)
\<close>

theorem fetchAndVerify_no_parts:
  "fetchAndVerify e sched w [] destinationDir userKeysDir = (w, Return ([], None))
   \<and> (fetchPkgMeta e w pkgURL destinationDir = (w1, Some pkg, None) \<and> Parts pkg = []
        \<and> \<not> env_mkdir e (tick w1) (path_Join destinationDir (PkgID pkg))
      \<longrightarrow> snd (PkgFetch e sched w pkgURL destinationDir userKeysDir) = Return ([], None))"
proof -
  have A: "fetchAndVerify e sched w' [] destinationDir userKeysDir = (w', Return ([], None))" for w'
    by (simp add: fetchAndVerify_def runTasks_no_parts newFetchState_def)
  have B: "snd (PkgFetch e sched w pkgURL destinationDir userKeysDir) = Return ([], None)"
    if "fetchPkgMeta e w pkgURL destinationDir = (w1, Some pkg, None)" and "Parts pkg = []"
      and "\<not> env_mkdir e (tick w1) (path_Join destinationDir (PkgID pkg))"
    using that A by (simp add: PkgFetch_def precheckPkgParts_def os_MkdirAll_def Let_def)
  show ?thesis using A B by blast
qed

text \<open>
  The amended theorem at the manifest of the package with no parts, in the environment
  where every directory can be made.
\<close>

theorem fetchAndVerify_no_parts_witness:
  "snd (PkgFetch exampleEnv [''p''] emptyWorld ''http://m/empty.json'' ''/d'' ''/k'') = Return ([], None)"
proof -
  obtain w1 where m: "fetchPkgMeta exampleEnv emptyWorld ''http://m/empty.json'' ''/d'' = (w1, Some emptyPkg, None)"
    by (simp add: fetchPkgMeta_def client_Get_def writeFile_def Let_def exampleEnv_def calmEnv_def
        mirror_def decodeExample_def emptyWorld_def)
  have p: "Parts emptyPkg = []" by (simp add: emptyPkg_def)
  have d: "\<not> env_mkdir exampleEnv (tick w1) (path_Join ''/d'' (PkgID emptyPkg))"
    by (simp add: exampleEnv_def calmEnv_def)
  show ?thesis
    using fetchAndVerify_no_parts[of exampleEnv "[''p'']" emptyWorld "''/d''" "''/k''" "''http://m/empty.json''" w1 emptyPkg]
      m p d by simp
qed

end
